theory Spec2Isabelle
  imports Main "HOL-Library.Word"
begin

section \<open>Data model of the QML checker (qmljscheck.cpp)\<close>

text \<open>
  Strings of the source (\<open>QString\<close>) are modelled as \<open>string\<close>. Pointers that the
  source dereferences are \<open>option\<close> values, and a dereference of an absent pointer is
  the fault \<open>NullPointer\<close>; \<open>QString::at\<close> outside the string is \<open>IndexOutOfRange\<close>.
\<close>

type_synonym QString = string

datatype Fault = NullPointer | IndexOutOfRange | ScopeUnderflow

record SourceLocation =
  offset :: "32 word"
  length' :: "32 word"
  startLine :: "32 word"
  startColumn :: "32 word"

datatype Kind = Warning | Error

record DiagnosticMessage =
  kind :: Kind
  loc :: SourceLocation
  message :: QString

text \<open>The interpreter's values. \<open>QmlEnumValue\<close> is a \<open>NumberValue\<close> and \<open>UrlValue\<close> is a
  \<open>StringValue\<close> in the source's class hierarchy; an object value answers member
  lookups by name and has a class name.\<close>

datatype Value =
    UndefinedValue
  | NullValue
  | NumberValue
  | QmlEnumValue "QString list"
  | BooleanValue
  | StringValue
  | UrlValue
  | ColorValue
  | AnchorLineValue
  | Reference
  | ObjectV ObjectValue
and ObjectValue =
    ObjectValue (className: QString) (members: "(QString \<times> Value) list")

datatype UiQualifiedId =
  UiQualifiedId (name: "QString option") (identifierToken: SourceLocation)
    (next': "UiQualifiedId option")

datatype Node =
    UiProgram "Node list"
  | UiObjectDefinition "UiQualifiedId option" "Node option"
  | UiObjectBinding "UiQualifiedId option" "UiQualifiedId option" "Node option"
  | UiObjectInitializer "Node list"
  | UiScriptBinding "UiQualifiedId option" "Node option"
  | UiArrayBinding "UiQualifiedId option" "Node list"
  | ExpressionStatement "Node option"
  | IdentifierExpression "QString option"
  | FieldMemberExpression "Node option" "QString option"
  | StringLiteral QString
  | NumericLiteral
  | TrueLiteral
  | FalseLiteral
  | UnaryMinusExpression "Node option"
  | FunctionExpression "Node list" "Node list"
  | FunctionDeclaration "Node list" "Node list"
  | OtherNode "Node list"

record Context =
  qmlScopeObjects :: "ObjectValue list"
  qmlTypes :: "ObjectValue option"

datatype QColor = InvalidColor | NamedColor QString | NamedColorAlpha QString int

text \<open>
  What the checker takes from its collaborators, none of which is part of the checked
  file: the character classes of \<open>QChar\<close>, \<open>QString::toInt\<close> in base 16,
  \<open>QColor::isValidColor\<close>, \<open>QUrl\<close> and \<open>QFileInfo\<close>, the source locations of the
  syntax tree, the expression evaluator, the type lookup of the context, and the scope
  objects that the scope builder contributes for a node.
\<close>

record Env =
  isLower :: "char \<Rightarrow> bool"
  isUpper :: "char \<Rightarrow> bool"
  toInt16 :: "QString \<Rightarrow> int option"
  isValidColor :: "QString \<Rightarrow> bool"
  urlIsValid :: "QString \<Rightarrow> bool"
  urlIsEmpty :: "QString \<Rightarrow> bool"
  urlToLocalFile :: "QString \<Rightarrow> QString"
  urlIsRelative :: "QString \<Rightarrow> bool"
  fileExists :: "QString \<Rightarrow> bool"
  separator :: char
  docPath :: QString
  firstSourceLocation :: "Node \<Rightarrow> SourceLocation"
  lastSourceLocation :: "Node \<Rightarrow> SourceLocation"
  evaluate :: "Context \<Rightarrow> Node option \<Rightarrow> Value option"
  lookupType :: "Context \<Rightarrow> UiQualifiedId option \<Rightarrow> ObjectValue option"
  scopeObjectsOf :: "Node \<Rightarrow> ObjectValue list"

section \<open>Helpers\<close>

definition mid :: "QString \<Rightarrow> nat \<Rightarrow> nat \<Rightarrow> QString" where
  "mid s pos n = take n (drop pos s)"

definition right :: "QString \<Rightarrow> nat \<Rightarrow> QString" where
  "right s n = drop (length s - n) s"

definition isValid :: "QColor \<Rightarrow> bool" where
  "isValid c = (case c of InvalidColor \<Rightarrow> False | _ \<Rightarrow> True)"

definition toQColor :: "Env \<Rightarrow> QString \<Rightarrow> QColor" where
  "toQColor env qmlColorString =
     (if length qmlColorString = 9 \<and> hd qmlColorString = CHR ''#'' then
        (case toInt16 env (mid qmlColorString 1 2) of
           Some alpha \<Rightarrow>
             (let name = hd qmlColorString # right qmlColorString 6 in
              if isValidColor env name then NamedColorAlpha name alpha else InvalidColor)
         | None \<Rightarrow> InvalidColor)
      else if isValidColor env qmlColorString then NamedColor qmlColorString
      else InvalidColor)"

section \<open>Source ranges and diagnostics\<close>

definition begin' :: "SourceLocation \<Rightarrow> 32 word" where
  "begin' l = offset l"

definition end' :: "SourceLocation \<Rightarrow> 32 word" where
  "end' l = offset l + length' l"

definition locationFromRange :: "SourceLocation \<Rightarrow> SourceLocation \<Rightarrow> SourceLocation" where
  "locationFromRange start fin =
     \<lparr>offset = offset start, length' = end' fin - begin' start,
      startLine = startLine start, startColumn = startColumn start\<rparr>"

definition errorMessage :: "SourceLocation \<Rightarrow> QString \<Rightarrow> DiagnosticMessage" where
  "errorMessage l m = \<lparr>kind = Error, loc = l, message = m\<rparr>"

section \<open>The assignment check (class AssignmentCheck)\<close>

definition asUndefinedValue :: "Value \<Rightarrow> bool" where
  "asUndefinedValue v = (case v of UndefinedValue \<Rightarrow> True | _ \<Rightarrow> False)"

definition asStringValue :: "Value \<Rightarrow> bool" where
  "asStringValue v = (case v of StringValue \<Rightarrow> True | UrlValue \<Rightarrow> True | _ \<Rightarrow> False)"

definition asNumberValue :: "Value \<Rightarrow> bool" where
  "asNumberValue v = (case v of NumberValue \<Rightarrow> True | QmlEnumValue ks \<Rightarrow> True | _ \<Rightarrow> False)"

definition asAnchorLineValue :: "Value \<Rightarrow> bool" where
  "asAnchorLineValue v = (case v of AnchorLineValue \<Rightarrow> True | _ \<Rightarrow> False)"

text \<open>\<open>cast<NumericLiteral *>(_ast) || (unaryMinus && cast<NumericLiteral *>(unaryMinus->expression))\<close>:
  the casts accept an absent node.\<close>

definition isNumericSyntax :: "Node option \<Rightarrow> bool" where
  "isNumericSyntax ast =
     (case ast of
        Some NumericLiteral \<Rightarrow> True
      | Some (UnaryMinusExpression (Some NumericLiteral)) \<Rightarrow> True
      | _ \<Rightarrow> False)"

text \<open>\<open>_ast->kind == Kind_TrueLiteral || _ast->kind == Kind_FalseLiteral\<close> reads the node.\<close>

definition isBooleanLiteral :: "Node option \<Rightarrow> Fault + bool" where
  "isBooleanLiteral ast =
     (case ast of
        None \<Rightarrow> Inl NullPointer
      | Some TrueLiteral \<Rightarrow> Inr True
      | Some FalseLiteral \<Rightarrow> Inr True
      | Some n \<Rightarrow> Inr False)"

definition visitNumberValue ::
  "QString list option \<Rightarrow> Value option \<Rightarrow> Node option \<Rightarrow> DiagnosticMessage
     \<Rightarrow> Fault + DiagnosticMessage" where
  "visitNumberValue enumKeys rhsValue ast msg =
     (case enumKeys of
        Some keys \<Rightarrow>
          (case ast of
             Some (StringLiteral valueName) \<Rightarrow>
               Inr (if valueName \<in> set keys then msg
                    else msg\<lparr>message := ''unknown value for enum''\<rparr>)
           | _ \<Rightarrow>
               (case rhsValue of
                  None \<Rightarrow> Inl NullPointer
                | Some rhs \<Rightarrow>
                    Inr (if asUndefinedValue rhs
                         then msg\<lparr>kind := Warning,
                                  message := ''value might be '' @ [CHR 39] @ ''undefined'' @ [CHR 39]\<rparr>
                         else if \<not> asStringValue rhs \<and> \<not> asNumberValue rhs
                         then msg\<lparr>message := ''enum value is not a string or number''\<rparr>
                         else msg)))
      | None \<Rightarrow>
          (case isBooleanLiteral ast of
             Inl f \<Rightarrow> Inl f
           | Inr b \<Rightarrow> Inr (if b then msg\<lparr>message := ''numerical value expected''\<rparr> else msg)))"

definition visitBooleanValue :: "Node option \<Rightarrow> DiagnosticMessage \<Rightarrow> DiagnosticMessage" where
  "visitBooleanValue ast msg =
     (if (case ast of Some (StringLiteral s) \<Rightarrow> True | _ \<Rightarrow> False) \<or> isNumericSyntax ast
      then msg\<lparr>message := ''boolean value expected''\<rparr> else msg)"

definition visitUrl :: "Env \<Rightarrow> Node option \<Rightarrow> DiagnosticMessage \<Rightarrow> DiagnosticMessage" where
  "visitUrl env ast msg =
     (case ast of
        Some (StringLiteral url) \<Rightarrow>
          (if \<not> urlIsValid env url \<and> \<not> urlIsEmpty env url
           then msg\<lparr>message := ''not a valid url''\<rparr>
           else
             (let fileName = urlToLocalFile env url in
              if fileName = [] then msg
              else
                (let fileName' =
                       (if urlIsRelative env url then docPath env @ separator env # fileName
                        else fileName)
                 in if fileExists env fileName' then msg
                    else msg\<lparr>message := ''file or directory does not exist''\<rparr>)))
      | _ \<Rightarrow> msg)"

text \<open>\<open>visit(const StringValue *value)\<close>; \<open>isUrl\<close> is \<open>value && value->asUrlValue()\<close>.\<close>

definition visitStringValue ::
  "Env \<Rightarrow> bool \<Rightarrow> Node option \<Rightarrow> DiagnosticMessage \<Rightarrow> Fault + DiagnosticMessage" where
  "visitStringValue env isUrl ast msg =
     (case (if isNumericSyntax ast then Inr True else isBooleanLiteral ast) of
        Inl f \<Rightarrow> Inl f
      | Inr b \<Rightarrow>
          (let msg1 = (if b then msg\<lparr>message := ''string value expected''\<rparr> else msg)
           in Inr (if isUrl then visitUrl env ast msg1 else msg1)))"

definition visitColorValue ::
  "Env \<Rightarrow> Node option \<Rightarrow> DiagnosticMessage \<Rightarrow> Fault + DiagnosticMessage" where
  "visitColorValue env ast msg =
     (case ast of
        Some (StringLiteral s) \<Rightarrow>
          Inr (if isValid (toQColor env s) then msg
               else msg\<lparr>message := ''not a valid color''\<rparr>)
      | _ \<Rightarrow> visitStringValue env False ast msg)"

definition visitAnchorLineValue ::
  "Value option \<Rightarrow> DiagnosticMessage \<Rightarrow> Fault + DiagnosticMessage" where
  "visitAnchorLineValue rhsValue msg =
     (case rhsValue of
        None \<Rightarrow> Inl NullPointer
      | Some rhs \<Rightarrow>
          Inr (if asAnchorLineValue rhs then msg
               else if asUndefinedValue rhs then msg
               else msg\<lparr>message := ''expected anchor line''\<rparr>))"

definition AssignmentCheck ::
  "Env \<Rightarrow> SourceLocation \<Rightarrow> Value option \<Rightarrow> Value option \<Rightarrow> Node option
     \<Rightarrow> Fault + DiagnosticMessage" where
  "AssignmentCheck env location lhsValue rhsValue ast =
     (let msg = \<lparr>kind = Error, loc = location, message = []\<rparr> in
      case lhsValue of
        None \<Rightarrow> Inr msg
      | Some NumberValue \<Rightarrow> visitNumberValue None rhsValue ast msg
      | Some (QmlEnumValue keys) \<Rightarrow> visitNumberValue (Some keys) rhsValue ast msg
      | Some BooleanValue \<Rightarrow> Inr (visitBooleanValue ast msg)
      | Some StringValue \<Rightarrow> visitStringValue env False ast msg
      | Some UrlValue \<Rightarrow> visitStringValue env True ast msg
      | Some ColorValue \<Rightarrow> visitColorValue env ast msg
      | Some AnchorLineValue \<Rightarrow> visitAnchorLineValue rhsValue msg
      | Some v \<Rightarrow> Inr msg)"

section \<open>The checker's state\<close>

text \<open>
  \<open>messages\<close>, \<open>ctxt\<close> and \<open>ignoreTypeErrors\<close> are the members \<open>_messages\<close>,
  \<open>_context\<close> and \<open>_ignoreTypeErrors\<close> of class \<open>Check\<close>; \<open>nodes\<close> is the stack of
  the scope builder \<open>_scopeBuilder\<close>.
\<close>

record Check =
  messages :: "DiagnosticMessage list"
  ctxt :: Context
  nodes :: "ObjectValue list list"
  ignoreTypeErrors :: bool

definition error :: "SourceLocation \<Rightarrow> QString \<Rightarrow> Check \<Rightarrow> Check" where
  "error l m c = c\<lparr>messages := messages c @ [\<lparr>kind = Error, loc = l, message = m\<rparr>]\<rparr>"

definition warning :: "SourceLocation \<Rightarrow> QString \<Rightarrow> Check \<Rightarrow> Check" where
  "warning l m c = c\<lparr>messages := messages c @ [\<lparr>kind = Warning, loc = l, message = m\<rparr>]\<rparr>"

text \<open>
  Modelled from the spec: the scope builder (\<open>ScopeBuilder::push\<close> and
  \<open>ScopeBuilder::pop\<close>) is not among the sources. Following the specification, a push
  opens a scope frame for the node: the frame remembers the scope-object list it found and
  the node's scope objects become the innermost ones (last in the list); a pop closes the
  innermost frame and restores the list that the frame found. The depth of the scope chain
  is the number of open frames. A pop with no open frame is the fault \<open>ScopeUnderflow\<close>.
\<close>

definition push :: "Env \<Rightarrow> Node \<Rightarrow> Check \<Rightarrow> Check" where
  "push env node c =
     c\<lparr>nodes := qmlScopeObjects (ctxt c) # nodes c,
       ctxt := (ctxt c)\<lparr>qmlScopeObjects :=
                     qmlScopeObjects (ctxt c) @ scopeObjectsOf env node\<rparr>\<rparr>"

definition pop :: "Check \<Rightarrow> Fault + Check" where
  "pop c =
     (case nodes c of
        [] \<Rightarrow> Inl ScopeUnderflow
      | saved # rest \<Rightarrow>
          Inr (c\<lparr>nodes := rest, ctxt := (ctxt c)\<lparr>qmlScopeObjects := saved\<rparr>\<rparr>))"

definition depth :: "Check \<Rightarrow> nat" where
  "depth c = length (nodes c)"

section \<open>The scope-chain member resolver (Check::checkScopeObjectMember)\<close>

definition lookupMember :: "ObjectValue \<Rightarrow> QString \<Rightarrow> Value option" where
  "lookupMember obj n = map_of (members obj) n"

definition value_cast_ObjectValue :: "Value option \<Rightarrow> ObjectValue option" where
  "value_cast_ObjectValue v = (case v of Some (ObjectV obj) \<Rightarrow> Some obj | _ \<Rightarrow> None)"

text \<open>The loop \<open>for (int i = scopeObjects.size() - 1; i >= 0; --i)\<close>, run over the reversed list.\<close>

fun globalLookup :: "ObjectValue list \<Rightarrow> QString \<Rightarrow> Value option" where
  "globalLookup [] propertyName = None"
| "globalLookup (obj # objs) propertyName =
     (case lookupMember obj propertyName of
        Some v \<Rightarrow> Some v
      | None \<Rightarrow> globalLookup objs propertyName)"

definition quoted :: "QString \<Rightarrow> QString" where
  "quoted s = [CHR 39] @ s @ [CHR 39]"

text \<open>The loop \<open>while (idPart->next)\<close>.\<close>

fun memberLookup :: "UiQualifiedId \<Rightarrow> QString \<Rightarrow> Value option \<Rightarrow> Check \<Rightarrow> Value option \<times> Check" where
  "memberLookup (UiQualifiedId nm tok None) propertyName v c = (v, c)"
| "memberLookup (UiQualifiedId nm tok (Some nxt)) propertyName v c =
     (case value_cast_ObjectValue v of
        None \<Rightarrow> (None, error tok (quoted propertyName @ '' does not have members'') c)
      | Some objectValue \<Rightarrow>
          (case name nxt of
             None \<Rightarrow> (None, c)
           | Some propertyName' \<Rightarrow>
               (case lookupMember objectValue propertyName' of
                  None \<Rightarrow>
                    (None, error (identifierToken nxt)
                       (quoted propertyName' @ '' is not a member of ''
                          @ quoted (className objectValue)) c)
                | Some v' \<Rightarrow> memberLookup nxt propertyName' (Some v') c)))"

definition checkScopeObjectMember ::
  "Env \<Rightarrow> UiQualifiedId option \<Rightarrow> Check \<Rightarrow> Value option \<times> Check" where
  "checkScopeObjectMember env id' c =
     (let scopeObjects = qmlScopeObjects (ctxt c) in
      if scopeObjects = [] then (None, c)
      else
        (case id' of
           None \<Rightarrow> (None, c)
         | Some qid \<Rightarrow>
             (case name qid of
                None \<Rightarrow> (None, c)
              | Some propertyName \<Rightarrow>
                  if propertyName = ''id'' \<and> next' qid = None then (None, c)
                  else
                    (let isAttachedProperty =
                           (propertyName \<noteq> [] \<and> isUpper env (hd propertyName));
                         scopeObjects' =
                           (if isAttachedProperty
                            then (case qmlTypes (ctxt c) of
                                    Some types \<Rightarrow> scopeObjects @ [types]
                                  | None \<Rightarrow> scopeObjects)
                            else scopeObjects)
                     in if scopeObjects' = [] then (None, c)
                        else
                          (let v = globalLookup (rev scopeObjects') propertyName;
                               c1 = (case v of
                                       None \<Rightarrow>
                                         error (identifierToken qid)
                                           (quoted propertyName @ '' is not a valid property name'') c
                                     | Some x \<Rightarrow> c)
                           in if isAttachedProperty then (None, c1)
                              else memberLookup qid propertyName v c1)))))"

section \<open>The tree walker (class Check)\<close>

text \<open>The special case for the \<open>id\<close> property in \<open>Check::visit(UiScriptBinding *)\<close>. The
  boolean of the result says whether the visit goes on to the general part (\<open>True\<close>) or
  has returned \<open>false\<close>.\<close>

definition checkIdCase :: "Env \<Rightarrow> SourceLocation \<Rightarrow> QString \<Rightarrow> Check \<Rightarrow> bool \<times> Check" where
  "checkIdCase env l ident c =
     (if ident = [] then (False, error l ''ids must be lower case'' c)
      else if isLower env (hd ident) then (True, c)
      else (False, error l ''ids must be lower case'' c))"

definition visitIdBinding :: "Env \<Rightarrow> Node option \<Rightarrow> Check \<Rightarrow> Fault + bool \<times> Check" where
  "visitIdBinding env statement c =
     (case statement of
        None \<Rightarrow> Inr (False, c)
      | Some stmt \<Rightarrow>
          (let l = locationFromRange (firstSourceLocation env stmt) (lastSourceLocation env stmt)
           in case stmt of
                ExpressionStatement (Some (IdentifierExpression idName)) \<Rightarrow>
                  (case idName of
                     None \<Rightarrow> Inl NullPointer
                   | Some ident \<Rightarrow> Inr (checkIdCase env l ident c))
              | ExpressionStatement (Some (StringLiteral ident)) \<Rightarrow>
                  Inr (checkIdCase env l ident
                         (warning l ''using string literals for ids is discouraged'' c))
              | _ \<Rightarrow> Inr (False, error l ''expected id'' c)))"

text \<open>The general part of \<open>Check::visit(UiScriptBinding *)\<close>, from the call of the resolver on.\<close>

definition checkBinding :: "Env \<Rightarrow> UiQualifiedId \<Rightarrow> Node option \<Rightarrow> Check \<Rightarrow> Fault + bool \<times> Check" where
  "checkBinding env qid statement c =
     (case checkScopeObjectMember env (Some qid) c of
        (None, c1) \<Rightarrow> Inr (True, c1)
      | (Some lhsValue, c1) \<Rightarrow>
          (case statement of
             Some (ExpressionStatement expr) \<Rightarrow>
               (let rhsValue = evaluate env (ctxt c1) expr;
                    l = locationFromRange (firstSourceLocation env (ExpressionStatement expr))
                          (lastSourceLocation env (ExpressionStatement expr))
                in case AssignmentCheck env l (Some lhsValue) rhsValue expr of
                     Inl f \<Rightarrow> Inl f
                   | Inr m \<Rightarrow>
                       Inr (True, if message m = [] then c1
                                  else c1\<lparr>messages := messages c1 @ [m]\<rparr>))
           | _ \<Rightarrow> Inr (True, c1)))"

definition visitUiScriptBinding ::
  "Env \<Rightarrow> UiQualifiedId option \<Rightarrow> Node option \<Rightarrow> Check \<Rightarrow> Fault + bool \<times> Check" where
  "visitUiScriptBinding env qualifiedId statement c =
     (case qualifiedId of
        None \<Rightarrow> Inl NullPointer
      | Some qid \<Rightarrow>
          (case name qid of
             None \<Rightarrow> Inl NullPointer
           | Some n \<Rightarrow>
               if n = ''id'' \<and> next' qid = None then
                 (case visitIdBinding env statement c of
                    Inl f \<Rightarrow> Inl f
                  | Inr (False, c1) \<Rightarrow> Inr (False, c1)
                  | Inr (True, c1) \<Rightarrow> checkBinding env qid statement c1)
               else checkBinding env qid statement c))"

text \<open>The part of \<open>Check::visitQmlObject\<close> before the initializer is visited: \<open>Inr (False, c')\<close>
  is the early return for a grouped property, \<open>Inr (True, c')\<close> the state after the push and
  the type lookup.\<close>

definition enterQmlObject ::
  "Env \<Rightarrow> Node \<Rightarrow> UiQualifiedId option \<Rightarrow> Check \<Rightarrow> Fault + bool \<times> Check" where
  "enterQmlObject env ast typeId c =
     (case typeId of
        None \<Rightarrow> Inl NullPointer
      | Some tid \<Rightarrow>
          (case name tid of
             None \<Rightarrow> Inl NullPointer
           | Some n \<Rightarrow>
               if n = [] then Inl IndexOutOfRange
               else if isLower env (hd n) \<and> next' tid = None
               then Inr (False, snd (checkScopeObjectMember env typeId c))
               else
                 (let c1 = push env ast c in
                  case lookupType env (ctxt c1) typeId of
                    Some t \<Rightarrow> Inr (True, c1)
                  | None \<Rightarrow>
                      (let c2 = (if ignoreTypeErrors c1 then c1
                                 else error (identifierToken tid) ''unknown type'' c1)
                       in Inr (True, c2\<lparr>ctxt := (ctxt c2)\<lparr>qmlScopeObjects := []\<rparr>\<rparr>)))))"

text \<open>
  \<open>accept\<close> is \<open>Node::accept(node, this)\<close> for a present node: the checker's \<open>visit\<close> for
  the node's class and, where that returns \<open>true\<close>, the visit of the children. Classes
  for which \<open>Check\<close> has no \<open>visit\<close> descend into their children. \<open>visitQmlObject\<close> is
  the source's function of that name.
\<close>

fun accept :: "Env \<Rightarrow> Node \<Rightarrow> Check \<Rightarrow> Fault + Check"
  and acceptList :: "Env \<Rightarrow> Node list \<Rightarrow> Check \<Rightarrow> Fault + Check"
  and visitQmlObject :: "Env \<Rightarrow> Node \<Rightarrow> UiQualifiedId option \<Rightarrow> Node option \<Rightarrow> Check \<Rightarrow> Fault + Check"
where
  "accept env (UiProgram ms) c = acceptList env ms c"
| "accept env (UiObjectDefinition typeId initializer) c =
     visitQmlObject env (UiObjectDefinition typeId initializer) typeId initializer c"
| "accept env (UiObjectBinding qualifiedId typeId initializer) c =
     visitQmlObject env (UiObjectBinding qualifiedId typeId initializer) typeId initializer
       (snd (checkScopeObjectMember env qualifiedId c))"
| "accept env (UiObjectInitializer ms) c = acceptList env ms c"
| "accept env (UiScriptBinding qualifiedId statement) c =
     (case visitUiScriptBinding env qualifiedId statement c of
        Inl f \<Rightarrow> Inl f
      | Inr (False, c1) \<Rightarrow> Inr c1
      | Inr (True, c1) \<Rightarrow>
          (case statement of None \<Rightarrow> Inr c1 | Some stmt \<Rightarrow> accept env stmt c1))"
| "accept env (UiArrayBinding qualifiedId ms) c =
     acceptList env ms (snd (checkScopeObjectMember env qualifiedId c))"
| "accept env (ExpressionStatement expr) c =
     (case expr of None \<Rightarrow> Inr c | Some e \<Rightarrow> accept env e c)"
| "accept env (IdentifierExpression n) c = Inr c"
| "accept env (FieldMemberExpression base n) c =
     (case base of None \<Rightarrow> Inr c | Some b \<Rightarrow> accept env b c)"
| "accept env (StringLiteral s) c = Inr c"
| "accept env NumericLiteral c = Inr c"
| "accept env TrueLiteral c = Inr c"
| "accept env FalseLiteral c = Inr c"
| "accept env (UnaryMinusExpression expr) c =
     (case expr of None \<Rightarrow> Inr c | Some e \<Rightarrow> accept env e c)"
| "accept env (FunctionExpression formals body) c =
     (case acceptList env formals c of
        Inl f \<Rightarrow> Inl f
      | Inr c1 \<Rightarrow>
          (case acceptList env body (push env (FunctionExpression formals body) c1) of
             Inl f \<Rightarrow> Inl f
           | Inr c2 \<Rightarrow> pop c2))"
| "accept env (FunctionDeclaration formals body) c =
     (case acceptList env formals c of
        Inl f \<Rightarrow> Inl f
      | Inr c1 \<Rightarrow>
          (case acceptList env body (push env (FunctionDeclaration formals body) c1) of
             Inl f \<Rightarrow> Inl f
           | Inr c2 \<Rightarrow> pop c2))"
| "accept env (OtherNode children) c = acceptList env children c"
| "acceptList env [] c = Inr c"
| "acceptList env (n # ns) c =
     (case accept env n c of
        Inl f \<Rightarrow> Inl f
      | Inr c1 \<Rightarrow> acceptList env ns c1)"
| "visitQmlObject env ast typeId initializer c =
     (case enterQmlObject env ast typeId c of
        Inl f \<Rightarrow> Inl f
      | Inr (False, c1) \<Rightarrow> Inr c1
      | Inr (True, c1) \<Rightarrow>
          (case (case initializer of None \<Rightarrow> Inr c1 | Some i \<Rightarrow> accept env i c1) of
             Inl f \<Rightarrow> Inl f
           | Inr c2 \<Rightarrow> pop c2))"

text \<open>\<open>Check::operator()\<close>: clear the messages, walk the document's tree, return the messages.\<close>

definition run :: "Env \<Rightarrow> Node option \<Rightarrow> Check \<Rightarrow> Fault + DiagnosticMessage list \<times> Check" where
  "run env ast c =
     (case (case ast of None \<Rightarrow> Inr (c\<lparr>messages := []\<rparr>)
                      | Some n \<Rightarrow> accept env n (c\<lparr>messages := []\<rparr>)) of
        Inl f \<Rightarrow> Inl f
      | Inr c1 \<Rightarrow> Inr (messages c1, c1))"

section \<open>The colour contract in the specification's words\<close>

text \<open>The value of a hexadecimal digit, and the specification's reading of the alpha
  characters: exactly two hexadecimal digits, a value from 0 to 255.\<close>

definition hexValue :: "char \<Rightarrow> int option" where
  "hexValue ch = map_of (zip ''0123456789ABCDEFabcdef''
      [0, 1, 2, 3, 4, 5, 6, 7, 8, 9, 10, 11, 12, 13, 14, 15, 10, 11, 12, 13, 14, 15]) ch"

definition specAlpha :: "QString \<Rightarrow> int option" where
  "specAlpha s =
     (case s of
        [a, b] \<Rightarrow>
          (case hexValue a of
             None \<Rightarrow> None
           | Some x \<Rightarrow> (case hexValue b of None \<Rightarrow> None | Some y \<Rightarrow> Some (16 * x + y)))
      | _ \<Rightarrow> None)"


section \<open>Notions used in the statements\<close>

text \<open>Two states of the checker agree on everything but the messages.\<close>

definition sameScope :: "Check \<Rightarrow> Check \<Rightarrow> bool" where
  "sameScope c c' =
     (ctxt c' = ctxt c \<and> nodes c' = nodes c \<and> ignoreTypeErrors c' = ignoreTypeErrors c)"

text \<open>\<open>c1\<close> is \<open>c\<close> with one more frame open, whatever its scope objects are.\<close>

definition opened :: "Check \<Rightarrow> Check \<Rightarrow> bool" where
  "opened c c1 =
     ((\<exists>objs. ctxt c1 = (ctxt c)\<lparr>qmlScopeObjects := objs\<rparr>)
      \<and> nodes c1 = qmlScopeObjects (ctxt c) # nodes c
      \<and> ignoreTypeErrors c1 = ignoreTypeErrors c)"

text \<open>The binding \<open>id: e\<close> and the source range of its statement.\<close>

definition idBinding :: "SourceLocation \<Rightarrow> Node \<Rightarrow> Node" where
  "idBinding tok e =
     UiScriptBinding (Some (UiQualifiedId (Some ''id'') tok None))
       (Some (ExpressionStatement (Some e)))"

definition stmtRange :: "Env \<Rightarrow> Node \<Rightarrow> SourceLocation" where
  "stmtRange env e =
     locationFromRange (firstSourceLocation env (ExpressionStatement (Some e)))
       (lastSourceLocation env (ExpressionStatement (Some e)))"

section \<open>A sample environment and document\<close>

definition noLoc :: SourceLocation where
  "noLoc = \<lparr>offset = 0, length' = 0, startLine = 0, startColumn = 0\<rparr>"

text \<open>The sample's base-16 parse of a two-character string, after \<open>QString::toInt\<close>:
  two hexadecimal digits, or a sign and one hexadecimal digit.\<close>

definition hexInt :: "QString \<Rightarrow> int option" where
  "hexInt s =
     (case s of
        [a, b] \<Rightarrow>
          (if a = CHR ''-'' then (case hexValue b of None \<Rightarrow> None | Some y \<Rightarrow> Some (- y))
           else if a = CHR ''+'' then hexValue b
           else specAlpha s)
      | _ \<Rightarrow> None)"

definition hexColorName :: "QString \<Rightarrow> bool" where
  "hexColorName s =
     (case s of
        [] \<Rightarrow> False
      | ch # digits \<Rightarrow>
          ch = CHR ''#'' \<and> (length digits = 6 \<or> length digits = 8)
          \<and> list_all (\<lambda>d. hexValue d \<noteq> None) digits)"

definition anchorsObject :: ObjectValue where
  "anchorsObject = ObjectValue ''Anchors'' [(''left'', AnchorLineValue)]"

definition rectangleObject :: ObjectValue where
  "rectangleObject =
     ObjectValue ''Rectangle''
       [(''width'', NumberValue), (''color'', ColorValue), (''anchors'', ObjectV anchorsObject),
        (''horizontalAlignment'', QmlEnumValue [''AlignLeft'', ''AlignRight'']),
        (''AlignLeft'', NumberValue)]"

definition typesObject :: ObjectValue where
  "typesObject = ObjectValue ''types'' [(''Keys'', ObjectV (ObjectValue ''Keys'' []))]"

definition isRectangle :: "UiQualifiedId option \<Rightarrow> bool" where
  "isRectangle t = (case t of None \<Rightarrow> False | Some q \<Rightarrow> name q = Some ''Rectangle'')"

definition sampleEnv :: Env where
  "sampleEnv =
     \<lparr>isLower = (\<lambda>ch. ch \<in> set ''abcdefghijklmnopqrstuvwxyz''),
      isUpper = (\<lambda>ch. ch \<in> set ''ABCDEFGHIJKLMNOPQRSTUVWXYZ''),
      toInt16 = hexInt,
      isValidColor = hexColorName,
      urlIsValid = (\<lambda>u. True),
      urlIsEmpty = (\<lambda>u. u = []),
      urlToLocalFile = (\<lambda>u. []),
      urlIsRelative = (\<lambda>u. False),
      fileExists = (\<lambda>f. True),
      separator = CHR ''/'',
      docPath = [],
      firstSourceLocation = (\<lambda>n. noLoc),
      lastSourceLocation = (\<lambda>n. noLoc),
      evaluate = (\<lambda>cx e. case e of
                     Some (StringLiteral s) \<Rightarrow> Some StringValue
                   | Some NumericLiteral \<Rightarrow> Some NumberValue
                   | Some TrueLiteral \<Rightarrow> Some BooleanValue
                   | Some FalseLiteral \<Rightarrow> Some BooleanValue
                   | _ \<Rightarrow> Some UndefinedValue),
      lookupType = (\<lambda>cx t. if isRectangle t then Some rectangleObject else None),
      scopeObjectsOf = (\<lambda>n. case n of
                     UiObjectDefinition t i \<Rightarrow> if isRectangle t then [rectangleObject] else []
                   | _ \<Rightarrow> [])\<rparr>"

definition seg :: "QString \<Rightarrow> UiQualifiedId" where
  "seg n = UiQualifiedId (Some n) noLoc None"

definition dotted :: "QString \<Rightarrow> UiQualifiedId \<Rightarrow> UiQualifiedId" where
  "dotted n rest = UiQualifiedId (Some n) noLoc (Some rest)"

definition binding :: "UiQualifiedId \<Rightarrow> Node \<Rightarrow> Node" where
  "binding q e = UiScriptBinding (Some q) (Some (ExpressionStatement (Some e)))"

definition emptyCheck :: Check where
  "emptyCheck =
     \<lparr>messages = [], ctxt = \<lparr>qmlScopeObjects = [], qmlTypes = Some typesObject\<rparr>,
      nodes = [], ignoreTypeErrors = False\<rparr>"

definition insideRectangle :: Check where
  "insideRectangle =
     \<lparr>messages = [], ctxt = \<lparr>qmlScopeObjects = [rectangleObject], qmlTypes = Some typesObject\<rparr>,
      nodes = [[]], ignoreTypeErrors = False\<rparr>"

definition sampleDocument :: Node where
  "sampleDocument =
     UiProgram
       [UiObjectDefinition (Some (seg ''Rectangle''))
          (Some (UiObjectInitializer
             [binding (seg ''id'') (StringLiteral ''Root''),
              binding (seg ''width'') TrueLiteral,
              UiObjectDefinition (Some (seg ''Gadget''))
                (Some (UiObjectInitializer [binding (seg ''size'') NumericLiteral])),
              binding (seg ''height'') (FunctionExpression [] [OtherNode []])]))]"

definition sampleMessages :: "DiagnosticMessage list" where
  "sampleMessages =
     [\<lparr>kind = Warning, loc = noLoc, message = ''using string literals for ids is discouraged''\<rparr>,
      \<lparr>kind = Error, loc = noLoc, message = ''ids must be lower case''\<rparr>,
      \<lparr>kind = Error, loc = noLoc, message = ''numerical value expected''\<rparr>,
      \<lparr>kind = Error, loc = noLoc, message = ''unknown type''\<rparr>,
      \<lparr>kind = Error, loc = noLoc,
        message = [CHR 39] @ ''height'' @ [CHR 39] @ '' is not a valid property name''\<rparr>]"

section \<open>The walk leaves the scope chain as it found it\<close>

lemma sameScope_refl: "sameScope c c"
  by (simp add: sameScope_def)

lemma sameScope_trans: "sameScope a b \<Longrightarrow> sameScope b c \<Longrightarrow> sameScope a c"
  by (simp add: sameScope_def)

lemma sameScope_error: "sameScope c (error l m c)"
  by (simp add: sameScope_def error_def)

lemma sameScope_warning: "sameScope c (warning l m c)"
  by (simp add: sameScope_def warning_def)

lemma memberLookup_scope: "sameScope c (snd (memberLookup q p v c))"
  by (induction q p v c rule: memberLookup.induct)
    (auto simp: sameScope_refl sameScope_error split: option.splits)

lemma resolver_scope: "sameScope c (snd (checkScopeObjectMember env i c))"
  by (auto simp: checkScopeObjectMember_def Let_def memberLookup_scope sameScope_refl
      sameScope_error
      intro: sameScope_trans [OF sameScope_error memberLookup_scope] split: option.splits)

lemma visitIdBinding_scope: "visitIdBinding env s c = Inr (b, c') \<Longrightarrow> sameScope c c'"
  by (auto simp: visitIdBinding_def Let_def checkIdCase_def sameScope_refl sameScope_error
      sameScope_warning
      intro: sameScope_trans [OF sameScope_warning sameScope_error]
      split: option.splits Node.splits if_splits)

lemma checkBinding_scope: "checkBinding env q s c = Inr (b, c') \<Longrightarrow> sameScope c c'"
  using resolver_scope [of c env "Some q"]
  by (auto simp: checkBinding_def Let_def sameScope_def
      split: option.splits Node.splits if_splits sum.splits prod.splits)

lemma visitUiScriptBinding_scope:
  "visitUiScriptBinding env q s c = Inr (b, c') \<Longrightarrow> sameScope c c'"
  by (auto simp: visitUiScriptBinding_def split: option.splits if_splits sum.splits bool.splits
      dest: checkBinding_scope)
    (blast intro: sameScope_trans visitIdBinding_scope checkBinding_scope)+

lemma enterQmlObject_grouped:
  "enterQmlObject env ast t c = Inr (False, c') \<Longrightarrow> sameScope c c'"
  using resolver_scope [of c env t]
  by (auto simp: enterQmlObject_def Let_def split: option.splits if_splits)

lemma opened_push: "opened c (push env n c)"
  by (auto simp: opened_def push_def)

lemma enterQmlObject_opened:
  "enterQmlObject env ast t c = Inr (True, c1) \<Longrightarrow> opened c c1"
  by (auto simp: enterQmlObject_def Let_def opened_def push_def error_def
      split: option.splits if_splits)

lemma pop_closes:
  "opened c c1 \<Longrightarrow> sameScope c1 c2 \<Longrightarrow> pop c2 = Inr c3 \<Longrightarrow> sameScope c c3"
  by (auto simp: opened_def sameScope_def pop_def split: list.splits)

lemma accept_scope:
  "accept env n c = Inr c' \<Longrightarrow> sameScope c c'"
  "acceptList env ns c = Inr c' \<Longrightarrow> sameScope c c'"
  "visitQmlObject env ast t i c = Inr c' \<Longrightarrow> sameScope c c'"
proof (induction env n c and env ns c and env ast t i c arbitrary: c' and c' and c'
    rule: accept_acceptList_visitQmlObject.induct)
  case (3 env qualifiedId typeId initializer c)
  then show ?case
    using resolver_scope [of c env qualifiedId] by (auto intro: sameScope_trans)
next
  case (5 env qualifiedId statement c)
  then show ?case
    by (auto simp: sameScope_refl split: sum.splits bool.splits option.splits prod.splits
        dest: visitUiScriptBinding_scope intro: sameScope_trans)
next
  case (6 env qualifiedId ms c)
  then show ?case
    using resolver_scope [of c env qualifiedId] by (auto intro: sameScope_trans)
next
  case (7 env expr c)
  then show ?case by (auto simp: sameScope_refl split: option.splits)
next
  case (9 env base n c)
  then show ?case by (auto simp: sameScope_refl split: option.splits)
next
  case (14 env expr c)
  then show ?case by (auto simp: sameScope_refl split: option.splits)
next
  case (15 env formals body c)
  from "15.prems" obtain c1 c2 where
    a: "acceptList env formals c = Inr c1"
    and b: "acceptList env body (push env (FunctionExpression formals body) c1) = Inr c2"
    and p: "pop c2 = Inr c'"
    by (auto split: sum.splits)
  have "sameScope c c1" using "15.IH"(1) a .
  moreover have "sameScope c1 c'"
    using pop_closes [OF opened_push "15.IH"(2) [OF a b] p] .
  ultimately show ?case by (rule sameScope_trans)
next
  case (16 env formals body c)
  from "16.prems" obtain c1 c2 where
    a: "acceptList env formals c = Inr c1"
    and b: "acceptList env body (push env (FunctionDeclaration formals body) c1) = Inr c2"
    and p: "pop c2 = Inr c'"
    by (auto split: sum.splits)
  have "sameScope c c1" using "16.IH"(1) a .
  moreover have "sameScope c1 c'"
    using pop_closes [OF opened_push "16.IH"(2) [OF a b] p] .
  ultimately show ?case by (rule sameScope_trans)
next
  case (19 env n ns c)
  then show ?case by (auto split: sum.splits intro: sameScope_trans)
next
  case (20 env ast typeId initializer c)
  show ?case
  proof (cases "enterQmlObject env ast typeId c")
    case (Inl f)
    with "20.prems" show ?thesis by simp
  next
    case (Inr r)
    obtain b c1 where r: "r = (b, c1)" by (cases r)
    show ?thesis
    proof (cases b)
      case False
      with Inr r "20.prems" have "c' = c1" by simp
      with Inr r False show ?thesis by (auto dest: enterQmlObject_grouped)
    next
      case True
      with Inr r have e: "enterQmlObject env ast typeId c = Inr (True, c1)" by simp
      show ?thesis
      proof (cases initializer)
        case None
        with e "20.prems" have "pop c1 = Inr c'" by simp
        then show ?thesis
          using pop_closes [OF enterQmlObject_opened [OF e] sameScope_refl] by blast
      next
        case (Some i)
        with e "20.prems" obtain c2 where a: "accept env i c1 = Inr c2" and p: "pop c2 = Inr c'"
          by (auto split: sum.splits)
        have "sameScope c1 c2" using "20.IH" [OF e refl refl Some a] .
        then show ?thesis using pop_closes [OF enterQmlObject_opened [OF e] _ p] by blast
      qed
    qed
  qed
qed (simp_all add: sameScope_refl)

lemma run_scope: "run env ast c = Inr (ms, c') \<Longrightarrow> sameScope c c' \<and> ms = messages c'"
proof (cases ast)
  case None
  assume "run env ast c = Inr (ms, c')"
  with None show ?thesis by (auto simp: run_def sameScope_def)
next
  case (Some n)
  assume "run env ast c = Inr (ms, c')"
  with Some have a: "accept env n (c\<lparr>messages := []\<rparr>) = Inr c'" and m: "ms = messages c'"
    by (auto simp: run_def split: sum.splits)
  have "sameScope (c\<lparr>messages := []\<rparr>) c'" using accept_scope(1) [OF a] .
  with m show ?thesis by (simp add: sameScope_def)
qed

lemma sameScope_cleared: "sameScope c c' \<Longrightarrow> c'\<lparr>messages := []\<rparr> = c\<lparr>messages := []\<rparr>"
  by (cases c, cases c') (simp add: sameScope_def)

lemma sample_run:
  "run sampleEnv (Some sampleDocument) emptyCheck
     = Inr (sampleMessages, emptyCheck\<lparr>messages := sampleMessages\<rparr>)"
  by code_simp

text \<open>C8: after a full traversal that completes, the depth of the scope chain (the number of
  frames the scope builder has open) is what it was before the traversal, for every tree:
  each push of the object-element and function visits is followed by its pop.\<close>

theorem scope_depth_restored:
  "run env ast c = Inr (ms, c') \<Longrightarrow> depth c' = depth c"
  using run_scope [of env ast c ms c'] by (simp add: sameScope_def depth_def)

theorem scope_depth_restored_witness:
  "run sampleEnv (Some sampleDocument) emptyCheck
     = Inr (sampleMessages, emptyCheck\<lparr>messages := sampleMessages\<rparr>)
   \<and> depth (emptyCheck\<lparr>messages := sampleMessages\<rparr>) = depth emptyCheck"
  by (rule conjI [OF sample_run scope_depth_restored [OF sample_run]])

text \<open>C9: running the checker a second time, on the state the first run left, gives the
  same ordered list of diagnostics (and the same state).\<close>

theorem run_twice_same_messages:
  "run env ast c = Inr (ms, c') \<Longrightarrow> run env ast c' = Inr (ms, c')"
proof -
  assume r: "run env ast c = Inr (ms, c')"
  have eq: "c'\<lparr>messages := []\<rparr> = c\<lparr>messages := []\<rparr>"
    using run_scope [OF r] by (simp add: sameScope_cleared)
  have "run env ast c' = run env ast c"
    unfolding run_def eq by (rule refl)
  with r show ?thesis by simp
qed

theorem run_twice_same_messages_witness:
  "run sampleEnv (Some sampleDocument) emptyCheck
     = Inr (sampleMessages, emptyCheck\<lparr>messages := sampleMessages\<rparr>)
   \<and> run sampleEnv (Some sampleDocument) (emptyCheck\<lparr>messages := sampleMessages\<rparr>)
     = Inr (sampleMessages, emptyCheck\<lparr>messages := sampleMessages\<rparr>)"
  by (rule conjI [OF sample_run run_twice_same_messages [OF sample_run]])

section \<open>The colour parser\<close>




section \<open>The \<open>id\<close> binding\<close>

lemma resolver_id_none:
  "checkScopeObjectMember env (Some (UiQualifiedId (Some ''id'') tok None)) c = (None, c)"
  by (simp add: checkScopeObjectMember_def Let_def)

text \<open>C3: for the binding \<open>id: e\<close> with a bare expression statement: an identifier that
  starts with a lower-case letter gives no diagnostic; a string literal that starts with a
  lower-case letter gives exactly the warning about string literals; an identifier whose
  first letter is not lower-case (an upper-case letter is not) gives exactly the error
  "ids must be lower case"; an expression that is neither an identifier nor a string
  literal gives exactly the error "expected id".\<close>

theorem id_binding_diagnostics:
  "(n \<noteq> [] \<and> isLower env (hd n) \<longrightarrow>
      accept env (idBinding tok (IdentifierExpression (Some n))) c = Inr c)
   \<and> (n \<noteq> [] \<and> isLower env (hd n) \<longrightarrow>
      accept env (idBinding tok (StringLiteral n)) c =
        Inr (c\<lparr>messages := messages c @
               [\<lparr>kind = Warning, loc = stmtRange env (StringLiteral n),
                 message = ''using string literals for ids is discouraged''\<rparr>]\<rparr>))
   \<and> (n \<noteq> [] \<and> \<not> isLower env (hd n) \<longrightarrow>
      accept env (idBinding tok (IdentifierExpression (Some n))) c =
        Inr (c\<lparr>messages := messages c @
               [\<lparr>kind = Error, loc = stmtRange env (IdentifierExpression (Some n)),
                 message = ''ids must be lower case''\<rparr>]\<rparr>))
   \<and> ((\<forall>x. e \<noteq> IdentifierExpression x) \<and> (\<forall>x. e \<noteq> StringLiteral x) \<longrightarrow>
      accept env (idBinding tok e) c =
        Inr (c\<lparr>messages := messages c @
               [\<lparr>kind = Error, loc = stmtRange env e, message = ''expected id''\<rparr>]\<rparr>))"
proof (intro conjI impI)
  assume "n \<noteq> [] \<and> isLower env (hd n)"
  then show "accept env (idBinding tok (IdentifierExpression (Some n))) c = Inr c"
    by (simp add: idBinding_def visitUiScriptBinding_def visitIdBinding_def checkIdCase_def
        checkBinding_def resolver_id_none Let_def)
next
  assume "n \<noteq> [] \<and> isLower env (hd n)"
  then show "accept env (idBinding tok (StringLiteral n)) c =
        Inr (c\<lparr>messages := messages c @
               [\<lparr>kind = Warning, loc = stmtRange env (StringLiteral n),
                 message = ''using string literals for ids is discouraged''\<rparr>]\<rparr>)"
    by (simp add: idBinding_def stmtRange_def visitUiScriptBinding_def visitIdBinding_def
        checkIdCase_def checkBinding_def resolver_id_none warning_def Let_def)
next
  assume "n \<noteq> [] \<and> \<not> isLower env (hd n)"
  then show "accept env (idBinding tok (IdentifierExpression (Some n))) c =
        Inr (c\<lparr>messages := messages c @
               [\<lparr>kind = Error, loc = stmtRange env (IdentifierExpression (Some n)),
                 message = ''ids must be lower case''\<rparr>]\<rparr>)"
    by (simp add: idBinding_def stmtRange_def visitUiScriptBinding_def visitIdBinding_def
        checkIdCase_def error_def Let_def)
next
  assume "(\<forall>x. e \<noteq> IdentifierExpression x) \<and> (\<forall>x. e \<noteq> StringLiteral x)"
  then show "accept env (idBinding tok e) c =
        Inr (c\<lparr>messages := messages c @
               [\<lparr>kind = Error, loc = stmtRange env e, message = ''expected id''\<rparr>]\<rparr>)"
    by (cases e) (simp_all add: idBinding_def stmtRange_def visitUiScriptBinding_def
        visitIdBinding_def error_def Let_def)
qed

theorem id_binding_diagnostics_witness:
  "accept sampleEnv (idBinding noLoc (IdentifierExpression (Some ''foo''))) insideRectangle
     = Inr insideRectangle
   \<and> accept sampleEnv (idBinding noLoc (StringLiteral ''foo'')) insideRectangle
     = Inr (insideRectangle\<lparr>messages :=
         [\<lparr>kind = Warning, loc = noLoc,
           message = ''using string literals for ids is discouraged''\<rparr>]\<rparr>)
   \<and> accept sampleEnv (idBinding noLoc (IdentifierExpression (Some ''Foo''))) insideRectangle
     = Inr (insideRectangle\<lparr>messages :=
         [\<lparr>kind = Error, loc = noLoc, message = ''ids must be lower case''\<rparr>]\<rparr>)
   \<and> accept sampleEnv (idBinding noLoc NumericLiteral) insideRectangle
     = Inr (insideRectangle\<lparr>messages :=
         [\<lparr>kind = Error, loc = noLoc, message = ''expected id''\<rparr>]\<rparr>)"
proof -
  have lower: "''foo'' \<noteq> [] \<and> isLower sampleEnv (hd ''foo'')"
    by (simp add: sampleEnv_def)
  have upper: "''Foo'' \<noteq> [] \<and> \<not> isLower sampleEnv (hd ''Foo'')"
    by (simp add: sampleEnv_def)
  have other: "(\<forall>x. NumericLiteral \<noteq> IdentifierExpression x) \<and> (\<forall>x. NumericLiteral \<noteq> StringLiteral x)"
    by simp
  have r: "stmtRange sampleEnv x = noLoc" for x
    by (simp add: stmtRange_def sampleEnv_def locationFromRange_def noLoc_def end'_def begin'_def)
  have m: "messages insideRectangle = []"
    by (simp add: insideRectangle_def)
  note t = id_binding_diagnostics [of _ sampleEnv noLoc insideRectangle]
  from t [of "''foo''" NumericLiteral] lower
  have a: "accept sampleEnv (idBinding noLoc (IdentifierExpression (Some ''foo''))) insideRectangle
     = Inr insideRectangle"
    and b: "accept sampleEnv (idBinding noLoc (StringLiteral ''foo'')) insideRectangle
     = Inr (insideRectangle\<lparr>messages :=
         [\<lparr>kind = Warning, loc = noLoc,
           message = ''using string literals for ids is discouraged''\<rparr>]\<rparr>)"
    by (simp_all add: r m)
  from t [of "''Foo''" NumericLiteral] upper other
  have c: "accept sampleEnv (idBinding noLoc (IdentifierExpression (Some ''Foo''))) insideRectangle
     = Inr (insideRectangle\<lparr>messages :=
         [\<lparr>kind = Error, loc = noLoc, message = ''ids must be lower case''\<rparr>]\<rparr>)"
    and d: "accept sampleEnv (idBinding noLoc NumericLiteral) insideRectangle
     = Inr (insideRectangle\<lparr>messages :=
         [\<lparr>kind = Error, loc = noLoc, message = ''expected id''\<rparr>]\<rparr>)"
    by (simp_all add: r m)
  show ?thesis using a b c d by simp
qed

text \<open>C10: for the binding \<open>id: "s"\<close> with a string literal \<open>s\<close> that is not empty and does
  not start with a lower-case letter, the checker appends exactly two diagnostics, in this
  order: the warning about string literals, then the error "ids must be lower case".\<close>

theorem id_string_not_lower:
  assumes "s \<noteq> []" and "\<not> isLower env (hd s)"
  shows "accept env (idBinding tok (StringLiteral s)) c =
           Inr (c\<lparr>messages := messages c @
                  [\<lparr>kind = Warning, loc = stmtRange env (StringLiteral s),
                    message = ''using string literals for ids is discouraged''\<rparr>,
                   \<lparr>kind = Error, loc = stmtRange env (StringLiteral s),
                    message = ''ids must be lower case''\<rparr>]\<rparr>)"
  using assms
  by (simp add: idBinding_def stmtRange_def visitUiScriptBinding_def visitIdBinding_def
      checkIdCase_def warning_def error_def Let_def)

theorem id_string_not_lower_witness:
  "accept sampleEnv (idBinding noLoc (StringLiteral ''Foo'')) insideRectangle =
     Inr (insideRectangle\<lparr>messages :=
            [\<lparr>kind = Warning, loc = noLoc,
              message = ''using string literals for ids is discouraged''\<rparr>,
             \<lparr>kind = Error, loc = noLoc, message = ''ids must be lower case''\<rparr>]\<rparr>)"
proof -
  have h1: "''Foo'' \<noteq> []" by simp
  have h2: "\<not> isLower sampleEnv (hd ''Foo'')" by (simp add: sampleEnv_def)
  have r: "stmtRange sampleEnv (StringLiteral ''Foo'') = noLoc"
    by (simp add: stmtRange_def sampleEnv_def locationFromRange_def noLoc_def end'_def begin'_def)
  have m: "messages insideRectangle = []"
    by (simp add: insideRectangle_def)
  show ?thesis
    using id_string_not_lower [OF h1 h2, of noLoc insideRectangle] by (simp add: r m)
qed

section \<open>The resolver\<close>

lemma globalLookup_nonempty: "globalLookup objs n = Some v \<Longrightarrow> objs \<noteq> []"
  by (cases objs) simp_all

text \<open>C5, as amended: for a qualified id with at least two segments whose first segment
  \<open>a\<close> does not start with an upper-case letter and resolves, in the search of the scope
  objects, to a value that is not an object, the resolver appends exactly one error,
  "'a' does not have members", at the first segment, and returns none; nothing is said
  about the later segments.\<close>

theorem nonobject_first_segment:
  assumes "a = [] \<or> \<not> isUpper env (hd a)"
    and "globalLookup (rev (qmlScopeObjects (ctxt c))) a = Some v"
    and "value_cast_ObjectValue (Some v) = None"
  shows "checkScopeObjectMember env (Some (UiQualifiedId (Some a) tok (Some rest))) c =
           (None, error tok (quoted a @ '' does not have members'') c)"
proof -
  have "qmlScopeObjects (ctxt c) \<noteq> []"
    using globalLookup_nonempty [OF assms(2)] by simp
  then show ?thesis
    using assms by (auto simp: checkScopeObjectMember_def Let_def)
qed

theorem nonobject_first_segment_witness:
  "checkScopeObjectMember sampleEnv (Some (dotted ''width'' (dotted ''b'' (seg ''c''))))
     insideRectangle =
   (None, insideRectangle\<lparr>messages :=
      [\<lparr>kind = Error, loc = noLoc,
        message = [CHR 39] @ ''width'' @ [CHR 39] @ '' does not have members''\<rparr>]\<rparr>)"
proof -
  have h1: "''width'' = [] \<or> \<not> isUpper sampleEnv (hd ''width'')"
    by (simp add: sampleEnv_def)
  have h2: "globalLookup (rev (qmlScopeObjects (ctxt insideRectangle))) ''width'' = Some NumberValue"
    by (simp add: insideRectangle_def rectangleObject_def lookupMember_def)
  have h3: "value_cast_ObjectValue (Some NumberValue) = None"
    by (simp add: value_cast_ObjectValue_def)
  show ?thesis
    using nonobject_first_segment [OF h1 h2 h3, of noLoc "dotted ''b'' (seg ''c'')"]
    by (simp add: dotted_def error_def quoted_def insideRectangle_def)
qed

text \<open>The claim C5 as it is stated fails for a first segment that starts with an upper-case
  letter: \<open>AlignLeft\<close> resolves to a number in the scope object, the id is taken for an
  attached property, and \<open>AlignLeft.b.c\<close> is resolved to none with no diagnostic at all.\<close>

theorem capitalised_first_segment_silent:
  "globalLookup (rev (qmlScopeObjects (ctxt insideRectangle) @ [typesObject])) ''AlignLeft''
     = Some NumberValue
   \<and> value_cast_ObjectValue (Some NumberValue) = None
   \<and> checkScopeObjectMember sampleEnv (Some (dotted ''AlignLeft'' (dotted ''b'' (seg ''c''))))
       insideRectangle = (None, insideRectangle)
   \<and> messages insideRectangle = []"
  by (simp add: checkScopeObjectMember_def Let_def sampleEnv_def insideRectangle_def
      rectangleObject_def typesObject_def lookupMember_def value_cast_ObjectValue_def
      dotted_def seg_def)

text \<open>C7, as amended: when the scope-object list is not empty, for a qualified id whose
  first segment name is not empty and starts with an upper-case letter, the resolver
  searches the scope objects and, after them in the list (so first in the search), the
  attached-types object when there is one; it appends the error
  "'<name>' is not a valid property name" exactly when nothing matches, returns none
  whether or not the segment matched, looks at no further segment, and leaves the
  context's scope-object list as it was.\<close>

theorem attached_property_lookup:
  assumes "n \<noteq> []" and "isUpper env (hd n)" and "n \<noteq> ''id''"
    and "qmlScopeObjects (ctxt c) \<noteq> []"
  shows "checkScopeObjectMember env (Some (UiQualifiedId (Some n) tok nxt)) c =
           (None,
            case globalLookup
                   (rev (qmlScopeObjects (ctxt c)
                         @ (case qmlTypes (ctxt c) of Some types \<Rightarrow> [types] | None \<Rightarrow> [])))
                   n of
              None \<Rightarrow> error tok (quoted n @ '' is not a valid property name'') c
            | Some v \<Rightarrow> c)"
  using assms
  by (auto simp: checkScopeObjectMember_def Let_def split: option.splits)

theorem attached_property_lookup_witness:
  "checkScopeObjectMember sampleEnv (Some (dotted ''Timer'' (seg ''interval''))) insideRectangle =
     (None, insideRectangle\<lparr>messages :=
        [\<lparr>kind = Error, loc = noLoc,
          message = [CHR 39] @ ''Timer'' @ [CHR 39] @ '' is not a valid property name''\<rparr>]\<rparr>)
   \<and> checkScopeObjectMember sampleEnv (Some (dotted ''Keys'' (seg ''onPressed''))) insideRectangle =
     (None, insideRectangle)"
proof -
  have s: "qmlScopeObjects (ctxt insideRectangle) \<noteq> []"
    by (simp add: insideRectangle_def)
  have t1: "''Timer'' \<noteq> []" and t2: "isUpper sampleEnv (hd ''Timer'')" and t3: "''Timer'' \<noteq> ''id''"
    by (simp_all add: sampleEnv_def)
  have k1: "''Keys'' \<noteq> []" and k2: "isUpper sampleEnv (hd ''Keys'')" and k3: "''Keys'' \<noteq> ''id''"
    by (simp_all add: sampleEnv_def)
  have a: "checkScopeObjectMember sampleEnv (Some (dotted ''Timer'' (seg ''interval'')))
             insideRectangle =
     (None, insideRectangle\<lparr>messages :=
        [\<lparr>kind = Error, loc = noLoc,
          message = [CHR 39] @ ''Timer'' @ [CHR 39] @ '' is not a valid property name''\<rparr>]\<rparr>)"
    using attached_property_lookup [OF t1 t2 t3 s, of noLoc "Some (seg ''interval'')"]
    by (simp add: dotted_def error_def quoted_def insideRectangle_def rectangleObject_def
        typesObject_def lookupMember_def)
  have b: "checkScopeObjectMember sampleEnv (Some (dotted ''Keys'' (seg ''onPressed'')))
             insideRectangle = (None, insideRectangle)"
    using attached_property_lookup [OF k1 k2 k3 s, of noLoc "Some (seg ''onPressed'')"]
    by (simp add: dotted_def insideRectangle_def rectangleObject_def
        typesObject_def lookupMember_def)
  show ?thesis using a b by simp
qed

text \<open>The claim C7 as it is stated fails when there is no scope object: \<open>Timer\<close> matches
  neither a scope object nor the attached-types object, and the resolver returns none at
  its first test, without a lookup and without a diagnostic.\<close>

theorem attached_property_no_scope_silent:
  "qmlScopeObjects (ctxt emptyCheck) = []
   \<and> qmlTypes (ctxt emptyCheck) = Some typesObject
   \<and> globalLookup (rev (qmlScopeObjects (ctxt emptyCheck) @ [typesObject])) ''Timer'' = None
   \<and> checkScopeObjectMember sampleEnv (Some (seg ''Timer'')) emptyCheck = (None, emptyCheck)
   \<and> messages emptyCheck = []"
  by (simp add: checkScopeObjectMember_def Let_def emptyCheck_def typesObject_def
      lookupMember_def)

text \<open>C6: the resolver can append two diagnostics in one call. For the dotted id \<open>a.b\<close>
  whose first segment matches no scope object, it appends "'a' is not a valid property
  name", goes on to the member lookup with no value, and appends "'a' does not have
  members".\<close>

theorem unknown_first_segment_two_messages:
  "checkScopeObjectMember sampleEnv (Some (dotted ''a'' (seg ''b''))) insideRectangle =
     (None, insideRectangle\<lparr>messages :=
        [\<lparr>kind = Error, loc = noLoc,
          message = [CHR 39] @ ''a'' @ [CHR 39] @ '' is not a valid property name''\<rparr>,
         \<lparr>kind = Error, loc = noLoc,
          message = [CHR 39] @ ''a'' @ [CHR 39] @ '' does not have members''\<rparr>]\<rparr>)"
  by (simp add: checkScopeObjectMember_def Let_def sampleEnv_def insideRectangle_def
      rectangleObject_def lookupMember_def value_cast_ObjectValue_def
      dotted_def seg_def error_def quoted_def)

section \<open>Undetermined values and absent nodes\<close>





text \<open>C2: a script binding whose qualified id, or the name of its first segment, is missing,
  and an object element whose type name is missing or has a missing or empty first
  segment, are read without a test in \<open>Check::visit(UiScriptBinding *)\<close> and
  \<open>Check::visitQmlObject\<close>.\<close>

theorem missing_name_is_read:
  "visitUiScriptBinding env None statement c = Inl NullPointer
   \<and> visitUiScriptBinding env (Some (UiQualifiedId None tok nxt)) statement c = Inl NullPointer
   \<and> accept env (UiScriptBinding (Some (UiQualifiedId None tok nxt)) statement) c
       = Inl NullPointer
   \<and> enterQmlObject env ast None c = Inl NullPointer
   \<and> enterQmlObject env ast (Some (UiQualifiedId None tok nxt)) c = Inl NullPointer
   \<and> enterQmlObject env ast (Some (UiQualifiedId (Some []) tok nxt)) c = Inl IndexOutOfRange
   \<and> accept env (UiObjectDefinition (Some (UiQualifiedId None tok nxt)) initializer) c
       = Inl NullPointer"
  by (simp add: visitUiScriptBinding_def enterQmlObject_def)

end
